theory Spec2Isabelle
  imports Complex_Main
begin

section \<open>Python values\<close>

text \<open>
  The application (\<^verbatim>\<open>app.py\<close>) works on what \<^verbatim>\<open>resp.json()\<close> returns: Python values
  built from \<^verbatim>\<open>None\<close>, booleans, numbers, strings, lists and dictionaries. They are
  modelled by one datatype. A dictionary is an association list in insertion order; a
  lookup reads the first entry of a key.

  Numbers are modelled as reals: Python's \<^verbatim>\<open>int\<close> is unbounded and its \<^verbatim>\<open>float\<close> is
  idealised, so rounding is outside the model. Strings are lists of 8-bit characters,
  read as ASCII text.
\<close>

datatype json =
    JNull
  | JBool bool
  | JNum real
  | JStr string
  | JList "json list"
  | JDict "(string \<times> json) list"

text \<open>The exceptions the modelled code can raise.\<close>

datatype pyerr = RequestException | KeyError | IndexError | TypeError | AttributeError

text \<open>Python truthiness (\<^verbatim>\<open>if x:\<close>, \<^verbatim>\<open>not x\<close>, \<^verbatim>\<open>x or y\<close>).\<close>

fun truthy :: "json \<Rightarrow> bool" where
  "truthy JNull = False"
| "truthy (JBool b) = b"
| "truthy (JNum x) = (x \<noteq> 0)"
| "truthy (JStr s) = (s \<noteq> [])"
| "truthy (JList xs) = (xs \<noteq> [])"
| "truthy (JDict kvs) = (kvs \<noteq> [])"

text \<open>
  The operand of an arithmetic operation or of a comparison with a number: a number, or
  a boolean (\<^verbatim>\<open>bool\<close> is a subclass of \<^verbatim>\<open>int\<close>). Every other value makes the
  operation raise \<^verbatim>\<open>TypeError\<close>.
\<close>

fun as_number :: "json \<Rightarrow> real option" where
  "as_number (JNum x) = Some x"
| "as_number (JBool b) = Some (if b then 1 else 0)"
| "as_number JNull = None"
| "as_number (JStr s) = None"
| "as_number (JList xs) = None"
| "as_number (JDict kvs) = None"

section \<open>Unit converter and comfort index\<close>

text \<open>
  \<^verbatim>\<open>convert_temperatures(kelvin)\<close>: \<^verbatim>\<open>(None, None)\<close> for \<^verbatim>\<open>None\<close>, otherwise
  \<^verbatim>\<open>celsius = kelvin - 273.15\<close> and \<^verbatim>\<open>fahrenheit = (celsius * 9/5) + 32\<close>.
\<close>

definition convert_temperatures :: "json \<Rightarrow> pyerr + json \<times> json" where
  "convert_temperatures kelvin =
     (if kelvin = JNull then Inr (JNull, JNull)
      else case as_number kelvin of
        None \<Rightarrow> Inl TypeError
      | Some k \<Rightarrow>
          (let celsius = k - 273.15;
               fahrenheit = (celsius * 9 / 5) + 32
           in Inr (JNum celsius, JNum fahrenheit)))"

text \<open>
  \<^verbatim>\<open>calculate_comfort_index(temp_celsius, humidity, wind_speed)\<close>. The first test is
  \<^verbatim>\<open>None in [temp_celsius, humidity, wind_speed]\<close>. The temperature is clamped to
  0..40, the wind speed is only capped at 10 (\<^verbatim>\<open>min(wind_speed, 10)\<close>).
\<close>

definition calculate_comfort_index :: "json \<Rightarrow> json \<Rightarrow> json \<Rightarrow> pyerr + json" where
  "calculate_comfort_index temp_celsius humidity wind_speed =
     (if JNull \<in> set [temp_celsius, humidity, wind_speed] then Inr JNull
      else case (as_number temp_celsius, as_number humidity, as_number wind_speed) of
        (Some t, Some h, Some w) \<Rightarrow>
          (let normalized_temp = max 0 (min t 40) / 40;
               normalized_humidity = 1 - (h / 100);
               normalized_wind = 1 - (min w 10 / 10);
               comfort_index =
                 0.5 * normalized_temp + 0.3 * normalized_humidity + 0.2 * normalized_wind
           in Inr (JNum comfort_index))
      | _ \<Rightarrow> Inl TypeError)"

text \<open>The value the function computes on three numbers, as the source writes it.\<close>

definition comfort_value :: "real \<Rightarrow> real \<Rightarrow> real \<Rightarrow> real" where
  "comfort_value t h w =
     0.5 * (max 0 (min t 40) / 40) + 0.3 * (1 - (h / 100)) + 0.2 * (1 - (min w 10 / 10))"

text \<open>The specification's \<^verbatim>\<open>clamp(x, lo, hi)\<close>, used to state its formula.\<close>

definition clamp :: "real \<Rightarrow> real \<Rightarrow> real \<Rightarrow> real" where
  "clamp x lo hi = max lo (min x hi)"

section \<open>Strings\<close>

text \<open>
  The string methods the resolver uses. \<^verbatim>\<open>str.strip()\<close> removes leading and trailing
  white space (the ASCII characters for which \<^verbatim>\<open>str.isspace\<close> holds);
  \<^verbatim>\<open>s.split(",")\<close> cuts at every comma and always returns at least one part;
  \<^verbatim>\<open>s.upper()\<close> maps the letters a..z to A..Z; \<^verbatim>\<open>s.replace(".", "")\<close> deletes
  every period; \<^verbatim>\<open>sep.join(parts)\<close> puts the separator between the parts.
\<close>

definition isspace :: "char \<Rightarrow> bool" where
  "isspace c \<longleftrightarrow>
     c \<in> set [CHR 0x09, CHR 0x0A, CHR 0x0B, CHR 0x0C, CHR 0x0D,
               CHR 0x1C, CHR 0x1D, CHR 0x1E, CHR 0x1F, CHR '' '']"

definition strip :: "string \<Rightarrow> string" where
  "strip s = rev (dropWhile isspace (rev (dropWhile isspace s)))"

fun str_split :: "char \<Rightarrow> string \<Rightarrow> string list" where
  "str_split sep [] = [[]]"
| "str_split sep (c # cs) =
     (if c = sep then [] # str_split sep cs
      else case str_split sep cs of
        [] \<Rightarrow> [[c]]
      | p # ps \<Rightarrow> (c # p) # ps)"

definition upper_char :: "char \<Rightarrow> char" where
  "upper_char c =
     (case map_of (zip ''abcdefghijklmnopqrstuvwxyz'' ''ABCDEFGHIJKLMNOPQRSTUVWXYZ'') c of
        None \<Rightarrow> c
      | Some u \<Rightarrow> u)"

definition upper :: "string \<Rightarrow> string" where
  "upper s = map upper_char s"

definition remove_periods :: "string \<Rightarrow> string" where
  "remove_periods s = filter (\<lambda>c. c \<noteq> CHR ''.'') s"

text \<open>\<^verbatim>\<open>part.upper().replace(".", "")\<close>, which both fallbacks apply to the last part.\<close>

definition normalized :: "string \<Rightarrow> string" where
  "normalized part = remove_periods (upper part)"

fun join :: "string \<Rightarrow> string list \<Rightarrow> string" where
  "join sep [] = []"
| "join sep [p] = p"
| "join sep (p # q # ps) = p @ sep @ join sep (q # ps)"

text \<open>\<^verbatim>\<open>needle in haystack\<close> on two strings.\<close>

fun str_contains :: "string \<Rightarrow> string \<Rightarrow> bool" where
  "str_contains needle [] \<longleftrightarrow> needle = []"
| "str_contains needle (c # cs) \<longleftrightarrow>
     take (length needle) (c # cs) = needle \<or> str_contains needle cs"

section \<open>Operations on Python values\<close>

text \<open>Sequencing of computations that may raise.\<close>

definition pbind :: "pyerr + 'a \<Rightarrow> ('a \<Rightarrow> pyerr + 'b) \<Rightarrow> pyerr + 'b" where
  "pbind m f = (case m of Inl e \<Rightarrow> Inl e | Inr x \<Rightarrow> f x)"

text \<open>
  \<^verbatim>\<open>d[k] = v\<close> on the entries of a dictionary: an existing key keeps its place, a new
  key goes to the end.
\<close>

fun dict_set :: "(string \<times> json) list \<Rightarrow> string \<Rightarrow> json \<Rightarrow> (string \<times> json) list" where
  "dict_set [] k v = [(k, v)]"
| "dict_set ((k', v') # kvs) k v =
     (if k' = k then (k, v) # kvs else (k', v') # dict_set kvs k v)"

text \<open>\<^verbatim>\<open>x.get(k, default)\<close>: only a dictionary has the method.\<close>

fun py_get :: "json \<Rightarrow> string \<Rightarrow> json \<Rightarrow> pyerr + json" where
  "py_get (JDict kvs) k d = Inr (case map_of kvs k of None \<Rightarrow> d | Some v \<Rightarrow> v)"
| "py_get JNull k d = Inl AttributeError"
| "py_get (JBool b) k d = Inl AttributeError"
| "py_get (JNum x) k d = Inl AttributeError"
| "py_get (JStr s) k d = Inl AttributeError"
| "py_get (JList xs) k d = Inl AttributeError"

text \<open>\<^verbatim>\<open>x[k]\<close> with a string \<open>k\<close>.\<close>

fun py_getitem :: "json \<Rightarrow> string \<Rightarrow> pyerr + json" where
  "py_getitem (JDict kvs) k = (case map_of kvs k of None \<Rightarrow> Inl KeyError | Some v \<Rightarrow> Inr v)"
| "py_getitem JNull k = Inl TypeError"
| "py_getitem (JBool b) k = Inl TypeError"
| "py_getitem (JNum x) k = Inl TypeError"
| "py_getitem (JStr s) k = Inl TypeError"
| "py_getitem (JList xs) k = Inl TypeError"

text \<open>
  \<^verbatim>\<open>x[0]\<close>. The keys of a parsed JSON object are strings, so the integer key 0 is
  never found in a dictionary.
\<close>

fun py_first :: "json \<Rightarrow> pyerr + json" where
  "py_first (JList []) = Inl IndexError"
| "py_first (JList (x # xs)) = Inr x"
| "py_first (JStr []) = Inl IndexError"
| "py_first (JStr (c # cs)) = Inr (JStr [c])"
| "py_first (JDict kvs) = Inl KeyError"
| "py_first JNull = Inl TypeError"
| "py_first (JBool b) = Inl TypeError"
| "py_first (JNum x) = Inl TypeError"

text \<open>\<^verbatim>\<open>x[k] = v\<close> with a string \<open>k\<close>; the result is the updated \<open>x\<close>.\<close>

fun py_setitem :: "json \<Rightarrow> string \<Rightarrow> json \<Rightarrow> pyerr + json" where
  "py_setitem (JDict kvs) k v = Inr (JDict (dict_set kvs k v))"
| "py_setitem JNull k v = Inl TypeError"
| "py_setitem (JBool b) k v = Inl TypeError"
| "py_setitem (JNum x) k v = Inl TypeError"
| "py_setitem (JStr s) k v = Inl TypeError"
| "py_setitem (JList xs) k v = Inl TypeError"

text \<open>\<^verbatim>\<open>k in x\<close> with a string \<open>k\<close>.\<close>

fun py_contains :: "string \<Rightarrow> json \<Rightarrow> pyerr + bool" where
  "py_contains k (JDict kvs) = Inr (map_of kvs k \<noteq> None)"
| "py_contains k (JList xs) = Inr (JStr k \<in> set xs)"
| "py_contains k (JStr s) = Inr (str_contains k s)"
| "py_contains k JNull = Inl TypeError"
| "py_contains k (JBool b) = Inl TypeError"
| "py_contains k (JNum x) = Inl TypeError"

section \<open>The weather provider\<close>

text \<open>
  The two HTTP calls of the program, \<^verbatim>\<open>direct_geocode\<close> and
  \<^verbatim>\<open>get_weather_by_latlon\<close>, go to an external service. A provider answers a request
  with a parsed JSON value or with an exception (\<^verbatim>\<open>raise_for_status\<close>, a network
  failure), and its answer may depend on the requests made before. The state threaded
  through the program is the list of requests sent so far, oldest first.
\<close>

datatype request =
    Geocode string string
  | Weather json json string

type_synonym provider = "request list \<Rightarrow> request \<Rightarrow> pyerr + json"

definition direct_geocode ::
  "provider \<Rightarrow> string \<Rightarrow> string \<Rightarrow> request list \<Rightarrow> (pyerr + json) \<times> request list" where
  "direct_geocode P query api_key tr =
     (P tr (Geocode query api_key), tr @ [Geocode query api_key])"

definition get_weather_by_latlon ::
  "provider \<Rightarrow> json \<Rightarrow> json \<Rightarrow> string \<Rightarrow> request list \<Rightarrow> (pyerr + json) \<times> request list" where
  "get_weather_by_latlon P lat lon api_key tr =
     (P tr (Weather lat lon api_key), tr @ [Weather lat lon api_key])"

section \<open>Weather enricher\<close>

text \<open>
  \<^verbatim>\<open>finalize_weather_data\<close>, first part: the five reads of \<^verbatim>\<open>geocode_data[0]\<close>.
\<close>

definition geocode_fields :: "json \<Rightarrow> pyerr + json \<times> json \<times> json \<times> json \<times> json" where
  "geocode_fields geocode_data =
     pbind (py_first geocode_data) (\<lambda>g.
     pbind (py_getitem g ''lat'') (\<lambda>lat.
     pbind (py_getitem g ''lon'') (\<lambda>lon.
     pbind (py_get g ''country'' JNull) (\<lambda>country_code.
     pbind (py_get g ''state'' JNull) (\<lambda>state_name.
     pbind (py_get g ''name'' JNull) (\<lambda>city_name.
     Inr (lat, lon, country_code, state_name, city_name)))))))"

text \<open>
  \<^verbatim>\<open>finalize_weather_data\<close>, last part: \<^verbatim>\<open>'sys'\<close> is created when it is not in
  \<^verbatim>\<open>weather_data\<close>, then country, state and name are assigned. The nested dictionary
  is mutated in place, which is a read of \<^verbatim>\<open>weather_data['sys']\<close>, an update of the
  value read and its storing back.
\<close>

definition overlay_location :: "json \<Rightarrow> json \<Rightarrow> json \<Rightarrow> json \<Rightarrow> pyerr + json" where
  "overlay_location weather_data country_code state_name city_name =
     pbind (py_contains ''sys'' weather_data) (\<lambda>has_sys.
     pbind (if \<not> has_sys then py_setitem weather_data ''sys'' (JDict []) else Inr weather_data)
       (\<lambda>wd1.
     pbind (py_getitem wd1 ''sys'') (\<lambda>sys1.
     pbind (py_setitem sys1 ''country'' country_code) (\<lambda>sys2.
     pbind (py_setitem wd1 ''sys'' sys2) (\<lambda>wd2.
     pbind (py_getitem wd2 ''sys'') (\<lambda>sys3.
     pbind (py_setitem sys3 ''state'' state_name) (\<lambda>sys4.
     pbind (py_setitem wd2 ''sys'' sys4) (\<lambda>wd3.
     py_setitem wd3 ''name'' city_name))))))))"

definition finalize_weather_data ::
  "provider \<Rightarrow> json \<Rightarrow> string \<Rightarrow> request list \<Rightarrow> (pyerr + json) \<times> request list" where
  "finalize_weather_data P geocode_data api_key tr =
     (case geocode_fields geocode_data of
        Inl e \<Rightarrow> (Inl e, tr)
      | Inr (lat, lon, country_code, state_name, city_name) \<Rightarrow>
          (case get_weather_by_latlon P lat lon api_key tr of
             (Inl e, tr') \<Rightarrow> (Inl e, tr')
           | (Inr weather_data, tr') \<Rightarrow>
               (overlay_location weather_data country_code state_name city_name, tr')))"

section \<open>Location resolver\<close>

definition US_STATE_ABBREVS :: "string list" where
  "US_STATE_ABBREVS =
     [''AL'', ''AK'', ''AZ'', ''AR'', ''CA'', ''CO'', ''CT'', ''DE'', ''FL'', ''GA'',
      ''HI'', ''ID'', ''IL'', ''IN'', ''IA'', ''KS'', ''KY'', ''LA'', ''ME'', ''MD'',
      ''MA'', ''MI'', ''MN'', ''MS'', ''MO'', ''MT'', ''NE'', ''NV'', ''NH'', ''NJ'',
      ''NM'', ''NY'', ''NC'', ''ND'', ''OH'', ''OK'', ''OR'', ''PA'', ''RI'', ''SC'',
      ''SD'', ''TN'', ''TX'', ''UT'', ''VT'', ''VA'', ''WA'', ''WV'', ''WI'', ''WY'',
      ''DC'']"

definition COUNTRY_SYNONYMS :: "(string \<times> string) list" where
  "COUNTRY_SYNONYMS = [(''UK'', ''GB'')]"

text \<open>
  The \<^verbatim>\<open>try\<close> block shared by both fallbacks of \<^verbatim>\<open>try_geocode_fallbacks\<close>: geocode
  the rewritten query and, when the answer is not empty, fetch and enrich the weather.
  \<open>Some\<close> is the \<^verbatim>\<open>return\<close> inside the block; \<open>None\<close> means that control falls
  through, after an empty answer or after an exception, which both \<^verbatim>\<open>except\<close> clauses
  only log.
\<close>

definition fallback_attempt ::
  "provider \<Rightarrow> string \<Rightarrow> string \<Rightarrow> request list \<Rightarrow> json option \<times> request list" where
  "fallback_attempt P fallback_query api_key tr =
     (case direct_geocode P fallback_query api_key tr of
        (Inl e, tr1) \<Rightarrow> (None, tr1)
      | (Inr geo_data, tr1) \<Rightarrow>
          if truthy geo_data then
            (case finalize_weather_data P geo_data api_key tr1 of
               (Inl e, tr2) \<Rightarrow> (None, tr2)
             | (Inr weather_data, tr2) \<Rightarrow> (Some weather_data, tr2))
          else (None, tr1))"

text \<open>\<^verbatim>\<open>parts = [p.strip() for p in location_query.split(",")]\<close>\<close>

definition query_parts :: "string \<Rightarrow> string list" where
  "query_parts location_query = map strip (str_split CHR '','' location_query)"

text \<open>Fallback (A), country synonym, and fallback (B), US state abbreviation.\<close>

definition fallback_A ::
  "provider \<Rightarrow> string list \<Rightarrow> string \<Rightarrow> request list \<Rightarrow> json option \<times> request list" where
  "fallback_A P parts api_key tr =
     (if length parts \<ge> 2 then
        (let last_part = normalized (last parts) in
         case map_of COUNTRY_SYNONYMS last_part of
           None \<Rightarrow> (None, tr)
         | Some code \<Rightarrow>
             (let fallback_query = join '','' (butlast parts) @ '','' @ code
              in fallback_attempt P fallback_query api_key tr))
      else (None, tr))"

definition fallback_B ::
  "provider \<Rightarrow> string \<Rightarrow> string list \<Rightarrow> string \<Rightarrow> request list
     \<Rightarrow> json option \<times> request list" where
  "fallback_B P location_query parts api_key tr =
     (if length parts \<ge> 2 then
        (let possible_state = normalized (last parts) in
         if possible_state \<in> set US_STATE_ABBREVS then
           (let fallback_query = location_query @ '', US''
            in fallback_attempt P fallback_query api_key tr)
         else (None, tr))
      else (None, tr))"

definition try_geocode_fallbacks ::
  "provider \<Rightarrow> string \<Rightarrow> string \<Rightarrow> request list \<Rightarrow> json \<times> request list" where
  "try_geocode_fallbacks P location_query api_key tr =
     (let parts = query_parts location_query in
      case fallback_A P parts api_key tr of
        (Some weather_data, tr1) \<Rightarrow> (weather_data, tr1)
      | (None, tr1) \<Rightarrow>
          (case fallback_B P location_query parts api_key tr1 of
             (Some weather_data, tr2) \<Rightarrow> (weather_data, tr2)
           | (None, tr2) \<Rightarrow> (JNull, tr2)))"

text \<open>
  \<^verbatim>\<open>get_weather_data_geocoded\<close>: the whole body is one \<^verbatim>\<open>try\<close> whose two
  \<^verbatim>\<open>except\<close> clauses log and return \<^verbatim>\<open>None\<close>.
\<close>

definition get_weather_data_geocoded ::
  "provider \<Rightarrow> string \<Rightarrow> string \<Rightarrow> request list \<Rightarrow> json \<times> request list" where
  "get_weather_data_geocoded P location_query api_key tr =
     (case direct_geocode P location_query api_key tr of
        (Inl e, tr1) \<Rightarrow> (JNull, tr1)
      | (Inr geo_data, tr1) \<Rightarrow>
          if truthy geo_data then
            (case finalize_weather_data P geo_data api_key tr1 of
               (Inl e, tr2) \<Rightarrow> (JNull, tr2)
             | (Inr weather_data, tr2) \<Rightarrow> (weather_data, tr2))
          else
            (case try_geocode_fallbacks P location_query api_key tr1 of
               (weather_data, tr2) \<Rightarrow>
                 if truthy weather_data then (weather_data, tr2) else (JNull, tr2)))"

section \<open>Batch pipeline\<close>

text \<open>
  The loop of \<^verbatim>\<open>get_weather\<close> over \<^verbatim>\<open>location_queries\<close>. The result of a query is
  the dictionary the loop appends to \<^verbatim>\<open>all_results_data\<close>. The three failure
  dictionaries and the success dictionary are written out as in the source; a result
  is a success when it has no \<^verbatim>\<open>'error'\<close> key, which is the test of
  \<^verbatim>\<open>store_weather_data\<close> and of the filter after the loop.
\<close>

definition is_success :: "json \<Rightarrow> bool" where
  "is_success record \<longleftrightarrow> py_contains ''error'' record = Inr False"

definition fetch_failure :: "string \<Rightarrow> json" where
  "fetch_failure original_input =
     JDict [(''original_input'', JStr original_input),
            (''error'', JStr (''Could not fetch weather data for '' @ [CHR 0x27]
               @ original_input @ [CHR 0x27]
               @ ''. Location may be invalid, not found, or an API/network error occurred.''))]"

definition incomplete_failure :: "string \<Rightarrow> json \<Rightarrow> json \<Rightarrow> json \<Rightarrow> json" where
  "incomplete_failure original_input city_name_api country_code state_name =
     JDict [(''original_input'', JStr original_input),
            (''city_name'', if truthy city_name_api then city_name_api else JStr ''Unknown''),
            (''country_code'', country_code),
            (''state'', state_name),
            (''error'', JStr ''Incomplete data received from the weather service API.'')]"

definition internal_failure :: "string \<Rightarrow> json" where
  "internal_failure original_input =
     JDict [(''original_input'', JStr original_input),
            (''error'', JStr (''An internal error occurred while processing the ''
               @ ''weather data for this location.''))]"

definition city_result ::
  "string \<Rightarrow> json \<Rightarrow> json \<Rightarrow> json \<Rightarrow> json \<Rightarrow> json \<Rightarrow> json \<Rightarrow> json \<Rightarrow> json \<Rightarrow> json \<Rightarrow> json
     \<Rightarrow> json" where
  "city_result original_input city_name_api country_code state_name weather_desc
       temp_kelvin temp_celsius temp_fahrenheit humidity wind_speed comfort =
     JDict [(''original_input'', JStr original_input),
            (''city_name'', city_name_api),
            (''country_code'', country_code),
            (''state'', state_name),
            (''weather_desc'', weather_desc),
            (''temp_kelvin'', temp_kelvin),
            (''temp_celsius'', temp_celsius),
            (''temp_fahrenheit'', temp_fahrenheit),
            (''humidity'', humidity),
            (''wind_speed'', wind_speed),
            (''comfort_index'', comfort)]"

text \<open>
  The reads at the start of the \<^verbatim>\<open>try\<close> block: temperature, humidity, description,
  wind speed, city name, country code and state name, in this order.
\<close>

definition extract_fields ::
  "json \<Rightarrow> pyerr + json \<times> json \<times> json \<times> json \<times> json \<times> json \<times> json" where
  "extract_fields weather_data =
     pbind (py_get weather_data ''main'' (JDict [])) (\<lambda>main_info.
     pbind (py_get main_info ''temp'' JNull) (\<lambda>temp_kelvin.
     pbind (py_get main_info ''humidity'' JNull) (\<lambda>humidity.
     pbind (py_get weather_data ''weather'' (JList [JDict []])) (\<lambda>weather_details.
     pbind (if truthy weather_details
            then pbind (py_first weather_details)
                   (\<lambda>first. py_get first ''description'' (JStr ''N/A''))
            else Inr (JStr ''N/A'')) (\<lambda>weather_desc.
     pbind (py_get weather_data ''wind'' (JDict [])) (\<lambda>wind_info.
     pbind (py_get wind_info ''speed'' JNull) (\<lambda>wind_speed.
     pbind (py_get weather_data ''name'' JNull) (\<lambda>city_name_api.
     pbind (pbind (py_get weather_data ''sys'' (JDict []))
              (\<lambda>sys. py_get sys ''country'' JNull)) (\<lambda>country_code.
     pbind (pbind (py_get weather_data ''sys'' (JDict []))
              (\<lambda>sys. py_get sys ''state'' JNull)) (\<lambda>state_name.
     Inr (temp_kelvin, humidity, weather_desc, wind_speed,
          city_name_api, country_code, state_name)))))))))))"

text \<open>The validation, the derived values and the result dictionary.\<close>

definition shape_result ::
  "string \<Rightarrow> json \<times> json \<times> json \<times> json \<times> json \<times> json \<times> json \<Rightarrow> pyerr + json" where
  "shape_result original_input fields =
     (case fields of
        (temp_kelvin, humidity, weather_desc, wind_speed,
         city_name_api, country_code, state_name) \<Rightarrow>
          if JNull \<in> set [temp_kelvin, humidity, wind_speed] \<or> \<not> truthy city_name_api
          then Inr (incomplete_failure original_input city_name_api country_code state_name)
          else
            pbind (convert_temperatures temp_kelvin) (\<lambda>(temp_celsius, temp_fahrenheit).
            pbind (calculate_comfort_index temp_celsius humidity wind_speed) (\<lambda>comfort.
            Inr (city_result original_input city_name_api country_code state_name
                   weather_desc temp_kelvin temp_celsius temp_fahrenheit humidity wind_speed
                   comfort))))"

text \<open>
  The \<^verbatim>\<open>try\<close> block of the loop body: any exception raised in it is caught by
  \<^verbatim>\<open>except Exception\<close>, which appends the internal-error dictionary.
\<close>

definition process_weather_data :: "string \<Rightarrow> json \<Rightarrow> json" where
  "process_weather_data original_input weather_data =
     (case pbind (extract_fields weather_data) (shape_result original_input) of
        Inl e \<Rightarrow> internal_failure original_input
      | Inr record \<Rightarrow> record)"

text \<open>
  One iteration of the loop, on the results collected so far and the request log:
  an input that is empty after \<^verbatim>\<open>strip()\<close> is skipped, every other input appends one
  dictionary.
\<close>

definition get_weather_step ::
  "provider \<Rightarrow> string \<Rightarrow> string \<Rightarrow> json list \<times> request list \<Rightarrow> json list \<times> request list" where
  "get_weather_step P api_key location_query st =
     (case st of (all_results_data, tr) \<Rightarrow>
        (let original_input = strip location_query in
         if original_input = [] then (all_results_data, tr)
         else
           (case get_weather_data_geocoded P original_input api_key tr of
              (weather_data, tr1) \<Rightarrow>
                if \<not> truthy weather_data
                then (all_results_data @ [fetch_failure original_input], tr1)
                else (all_results_data @ [process_weather_data original_input weather_data],
                      tr1))))"

fun get_weather_loop ::
  "provider \<Rightarrow> string \<Rightarrow> string list \<Rightarrow> json list \<times> request list \<Rightarrow> json list \<times> request list" where
  "get_weather_loop P api_key [] st = st"
| "get_weather_loop P api_key (location_query # rest) st =
     get_weather_loop P api_key rest (get_weather_step P api_key location_query st)"

text \<open>The batch: the loop started with no result, on the request log \<open>tr\<close>.\<close>

definition process_batch :: "provider \<Rightarrow> string \<Rightarrow> string list \<Rightarrow> request list \<Rightarrow> json list" where
  "process_batch P api_key location_queries tr =
     fst (get_weather_loop P api_key location_queries ([], tr))"

text \<open>The field \<open>k\<close> of a result dictionary, \<^verbatim>\<open>None\<close> when there is none.\<close>

definition result_field :: "json \<Rightarrow> string \<Rightarrow> json" where
  "result_field record k = (case py_get record k JNull of Inl e \<Rightarrow> JNull | Inr v \<Rightarrow> v)"

section \<open>Observations\<close>

text \<open>
  What the loop body reads from the enriched \<^verbatim>\<open>weather_data\<close>: a value is
  \<^verbatim>\<open>None\<close> when its key is absent or holds \<^verbatim>\<open>null\<close>.
\<close>

definition temperature_of :: "json \<Rightarrow> json" where
  "temperature_of weather_data = result_field (result_field weather_data ''main'') ''temp''"

definition humidity_of :: "json \<Rightarrow> json" where
  "humidity_of weather_data = result_field (result_field weather_data ''main'') ''humidity''"

definition wind_speed_of :: "json \<Rightarrow> json" where
  "wind_speed_of weather_data = result_field (result_field weather_data ''wind'') ''speed''"

definition city_name_of :: "json \<Rightarrow> json" where
  "city_name_of weather_data = result_field weather_data ''name''"

definition country_code_of :: "json \<Rightarrow> json" where
  "country_code_of weather_data = result_field (result_field weather_data ''sys'') ''country''"

definition state_name_of :: "json \<Rightarrow> json" where
  "state_name_of weather_data = result_field (result_field weather_data ''sys'') ''state''"

text \<open>
  The shape of an observation as the provider's interface describes it: \<^verbatim>\<open>main\<close> and
  \<^verbatim>\<open>wind\<close> are objects when present, temperature, humidity and wind speed are numbers
  when present, \<^verbatim>\<open>weather\<close> is a list of objects when present, and the city name is
  a string or \<^verbatim>\<open>None\<close>. The reads of the loop body raise on other shapes.
\<close>

definition optional_number :: "json \<Rightarrow> bool" where
  "optional_number v = (case v of JNull \<Rightarrow> True | JNum x \<Rightarrow> True | _ \<Rightarrow> False)"

definition optional_object :: "json \<Rightarrow> string \<Rightarrow> bool" where
  "optional_object weather_data k =
     (case py_get weather_data k (JDict []) of Inr (JDict d) \<Rightarrow> True | _ \<Rightarrow> False)"

definition optional_string :: "json \<Rightarrow> bool" where
  "optional_string v = (case v of JNull \<Rightarrow> True | JStr s \<Rightarrow> True | _ \<Rightarrow> False)"

definition optional_conditions :: "json \<Rightarrow> bool" where
  "optional_conditions weather_data =
     (case py_get weather_data ''weather'' (JList [JDict []]) of
        Inr (JList []) \<Rightarrow> True
      | Inr (JList (JDict d # more)) \<Rightarrow> True
      | _ \<Rightarrow> False)"

definition well_formed_observation :: "json \<Rightarrow> bool" where
  "well_formed_observation weather_data \<longleftrightarrow>
     optional_object weather_data ''main'' \<and> optional_object weather_data ''wind''
     \<and> optional_number (temperature_of weather_data)
     \<and> optional_number (humidity_of weather_data)
     \<and> optional_number (wind_speed_of weather_data)
     \<and> optional_conditions weather_data
     \<and> optional_string (city_name_of weather_data)"

text \<open>
  The four required values are there: none of temperature, humidity and wind speed is
  \<^verbatim>\<open>None\<close>, and the city name is neither \<^verbatim>\<open>None\<close> nor empty (the source tests
  \<^verbatim>\<open>not city_name_api\<close>).
\<close>

definition complete_observation :: "json \<Rightarrow> bool" where
  "complete_observation weather_data \<longleftrightarrow>
     temperature_of weather_data \<noteq> JNull \<and> humidity_of weather_data \<noteq> JNull
     \<and> wind_speed_of weather_data \<noteq> JNull
     \<and> city_name_of weather_data \<noteq> JNull \<and> city_name_of weather_data \<noteq> JStr []"

text \<open>The list of weather conditions is missing or empty.\<close>

definition no_conditions :: "json \<Rightarrow> bool" where
  "no_conditions weather_data \<longleftrightarrow>
     result_field weather_data ''weather'' = JNull
     \<or> result_field weather_data ''weather'' = JList []"

section \<open>Example providers\<close>

text \<open>
  A provider given by a table of geocoding answers (a query that is not in the table
  has no match) and one answer to every weather request; a geocoding match, and
  observations, used to evaluate the program on concrete inputs.
\<close>

definition table_provider :: "(string \<times> (pyerr + json)) list \<Rightarrow> (pyerr + json) \<Rightarrow> provider" where
  "table_provider geocodes weather tr r =
     (case r of
        Geocode query api_key \<Rightarrow>
          (case map_of geocodes query of None \<Rightarrow> Inr (JList []) | Some answer \<Rightarrow> answer)
      | Weather lat lon api_key \<Rightarrow> weather)"

definition example_match :: json where
  "example_match =
     JList [JDict [(''name'', JStr ''Boston''), (''lat'', JNum 42.36), (''lon'', JNum (- 71.06)),
                   (''country'', JStr ''US''), (''state'', JStr ''Massachusetts'')]]"

definition example_weather :: json where
  "example_weather =
     JDict [(''main'', JDict [(''temp'', JNum 293.15), (''humidity'', JNum 50)]),
            (''wind'', JDict [(''speed'', JNum 5)]),
            (''name'', JStr ''Downtown''),
            (''sys'', JDict [(''country'', JStr ''XX'')])]"

definition no_wind_weather :: json where
  "no_wind_weather =
     JDict [(''main'', JDict [(''temp'', JNum 293.15), (''humidity'', JNum 50)]),
            (''weather'', JList [JDict [(''description'', JStr ''clear sky'')]])]"

definition nameless_match :: json where
  "nameless_match =
     JList [JDict [(''name'', JStr []), (''lat'', JNum 1), (''lon'', JNum 2),
                   (''country'', JStr ''US'')]]"

definition direct_error_provider :: provider where
  "direct_error_provider =
     table_provider [(''Boston, MA'', Inl RequestException),
                     (''Boston, MA, US'', Inr example_match)] (Inr example_weather)"

definition fallback_error_provider :: provider where
  "fallback_error_provider =
     table_provider [(''Boston, MA, US'', Inl RequestException)] (Inr example_weather)"

definition fallback_provider :: provider where
  "fallback_provider =
     table_provider [(''Boston, MA, US'', Inr example_match),
                     (''Leeds,GB'', Inr example_match)] (Inr example_weather)"

definition no_match_provider :: provider where
  "no_match_provider = table_provider [] (Inr example_weather)"

definition boston_provider :: "json \<Rightarrow> provider" where
  "boston_provider weather = table_provider [(''Boston, MA'', Inr example_match)] (Inr weather)"

definition nameless_provider :: provider where
  "nameless_provider = table_provider [(''Nowhere'', Inr nameless_match)] (Inr example_weather)"

section \<open>Properties of the converter and the comfort index\<close>

lemma comfort_index_numbers:
  "calculate_comfort_index (JNum t) (JNum h) (JNum w) = Inr (JNum (comfort_value t h w))"
  by (simp add: calculate_comfort_index_def comfort_value_def)

lemma comfort_value_humidity: "h1 \<le> h2 \<Longrightarrow> comfort_value t h2 w \<le> comfort_value t h1 w"
  by (simp add: comfort_value_def)

lemma comfort_value_wind: "w1 \<le> w2 \<Longrightarrow> comfort_value t h w2 \<le> comfort_value t h w1"
proof -
  assume "w1 \<le> w2"
  then have "min w1 10 \<le> min w2 10" by simp
  then show ?thesis by (simp add: comfort_value_def)
qed

lemma comfort_value_temperature: "t1 \<le> t2 \<Longrightarrow> comfort_value t1 h w \<le> comfort_value t2 h w"
proof -
  assume "t1 \<le> t2"
  then have "max 0 (min t1 40) \<le> max 0 (min t2 40)" by simp
  then show ?thesis by (simp add: comfort_value_def)
qed

lemma comfort_value_bounds:
  assumes "0 \<le> h" "h \<le> 100" "0 \<le> w"
  shows "0 \<le> comfort_value t h w" and "comfort_value t h w \<le> 1"
proof -
  define a where "a = max 0 (min t 40) / 40"
  define b where "b = 1 - h / 100"
  define c where "c = 1 - min w 10 / 10"
  have a: "0 \<le> a" "a \<le> 1" by (simp_all add: a_def)
  have b: "0 \<le> b" "b \<le> 1" using assms by (simp_all add: b_def)
  have c: "0 \<le> c" "c \<le> 1" using assms by (simp_all add: c_def)
  have v: "comfort_value t h w = 0.5 * a + 0.3 * b + 0.2 * c"
    by (simp add: comfort_value_def a_def b_def c_def)
  show "0 \<le> comfort_value t h w" unfolding v using a b c by simp
  show "comfort_value t h w \<le> 1" unfolding v using a b c by simp
qed

lemma comfort_value_formula:
  assumes "0 \<le> w"
  shows "comfort_value t h w =
           0.5 * (clamp t 0 40 / 40) + 0.3 * (1 - h / 100) + 0.2 * (1 - clamp w 0 10 / 10)"
  using assms by (simp add: comfort_value_def clamp_def)

text \<open>
  C7. \<^verbatim>\<open>convert_temperatures(None)\<close> is \<^verbatim>\<open>(None, None)\<close>; for every number \<open>k\<close> the
  result is \<open>(k - 273.15, (k - 273.15) * 9 / 5 + 32)\<close>; at 273.15 it is \<open>(0, 32)\<close>.
\<close>

theorem convert_temperatures_exact:
  "convert_temperatures JNull = Inr (JNull, JNull)
   \<and> (\<forall>k. convert_temperatures (JNum k) =
          Inr (JNum (k - 273.15), JNum ((k - 273.15) * 9 / 5 + 32)))
   \<and> convert_temperatures (JNum 273.15) = Inr (JNum 0, JNum 32)"
  by (simp add: convert_temperatures_def)

text \<open>
  C5. The comfort index is \<^verbatim>\<open>None\<close> exactly when one of its three arguments is
  \<^verbatim>\<open>None\<close>. For numbers with humidity in 0..100 and a wind speed that is not negative
  it is the specification's formula (with both clamps), a value between 0 and 1.
  At (20, 50, 5) the formula gives 0.5 * 0.5 + 0.3 * 0.5 + 0.2 * 0.5 = 0.5, and so does
  the function; the value 0.675 of the specification's example is not what it returns.
\<close>

theorem comfort_index_formula:
  "(calculate_comfort_index t h w = Inr JNull \<longleftrightarrow> t = JNull \<or> h = JNull \<or> w = JNull)
   \<and> (\<forall>tempC humidity windSpeed.
         0 \<le> humidity \<and> humidity \<le> 100 \<and> 0 \<le> windSpeed \<longrightarrow>
         (\<exists>ci. calculate_comfort_index (JNum tempC) (JNum humidity) (JNum windSpeed) =
                 Inr (JNum ci)
             \<and> ci = 0.5 * (clamp tempC 0 40 / 40) + 0.3 * (1 - humidity / 100)
                    + 0.2 * (1 - clamp windSpeed 0 10 / 10)
             \<and> 0 \<le> ci \<and> ci \<le> 1))
   \<and> calculate_comfort_index (JNum 20) (JNum 50) (JNum 5) = Inr (JNum 0.5)"
proof (intro conjI allI impI)
  show "calculate_comfort_index t h w = Inr JNull \<longleftrightarrow> t = JNull \<or> h = JNull \<or> w = JNull"
    by (auto simp: calculate_comfort_index_def split: option.splits)
  show "calculate_comfort_index (JNum 20) (JNum 50) (JNum 5) = Inr (JNum 0.5)"
    by (simp add: comfort_index_numbers comfort_value_def)
  fix tempC humidity windSpeed :: real
  assume "0 \<le> humidity \<and> humidity \<le> 100 \<and> 0 \<le> windSpeed"
  then show "\<exists>ci. calculate_comfort_index (JNum tempC) (JNum humidity) (JNum windSpeed) =
                 Inr (JNum ci)
             \<and> ci = 0.5 * (clamp tempC 0 40 / 40) + 0.3 * (1 - humidity / 100)
                    + 0.2 * (1 - clamp windSpeed 0 10 / 10)
             \<and> 0 \<le> ci \<and> ci \<le> 1"
    using comfort_value_formula [of windSpeed tempC humidity]
      comfort_value_bounds [of humidity windSpeed tempC]
      comfort_index_numbers [of tempC humidity windSpeed]
    by metis
qed

text \<open>The specification's example value is refuted by evaluating the function.\<close>

theorem comfort_index_example_counterexample:
  "calculate_comfort_index (JNum 20) (JNum 50) (JNum 5) \<noteq> Inr (JNum 0.675)"
  by (simp add: comfort_index_numbers comfort_value_def)

theorem comfort_index_formula_witness:
  "(0::real) \<le> 40 \<and> (40::real) \<le> 100 \<and> (0::real) \<le> 3
   \<and> calculate_comfort_index (JNum 25) (JNum 40) (JNum 3) = Inr (JNum 0.6325)
   \<and> calculate_comfort_index (JNum 25) JNull (JNum 3) = Inr JNull"
proof -
  have range: "(0::real) \<le> 40 \<and> (40::real) \<le> 100 \<and> (0::real) \<le> 3"
    by simp
  from comfort_index_formula [of "JNum 25" JNull "JNum 3"]
  have none: "calculate_comfort_index (JNum 25) JNull (JNum 3) = Inr JNull"
    by simp
  from comfort_index_formula [of JNull JNull JNull] range
  obtain ci where
    "calculate_comfort_index (JNum 25) (JNum 40) (JNum 3) = Inr (JNum ci)"
    "ci = 0.5 * (clamp 25 0 40 / 40) + 0.3 * (1 - 40 / 100) + 0.2 * (1 - clamp 3 0 10 / 10)"
    by blast
  then have "calculate_comfort_index (JNum 25) (JNum 40) (JNum 3) = Inr (JNum 0.6325)"
    by (simp add: clamp_def)
  with range none show ?thesis by simp
qed

text \<open>
  C6. For numeric arguments the comfort index does not increase when the humidity or
  the wind speed grows, and does not decrease when a temperature within 0..40 grows,
  the other two arguments being fixed.
\<close>

theorem comfort_index_monotone:
  "(\<forall>t h1 h2 w c1 c2.
      h1 \<le> h2
      \<and> calculate_comfort_index (JNum t) (JNum h1) (JNum w) = Inr (JNum c1)
      \<and> calculate_comfort_index (JNum t) (JNum h2) (JNum w) = Inr (JNum c2)
      \<longrightarrow> c2 \<le> c1)
   \<and> (\<forall>t h w1 w2 c1 c2.
      w1 \<le> w2
      \<and> calculate_comfort_index (JNum t) (JNum h) (JNum w1) = Inr (JNum c1)
      \<and> calculate_comfort_index (JNum t) (JNum h) (JNum w2) = Inr (JNum c2)
      \<longrightarrow> c2 \<le> c1)
   \<and> (\<forall>t1 t2 h w c1 c2.
      0 \<le> t1 \<and> t1 \<le> t2 \<and> t2 \<le> 40
      \<and> calculate_comfort_index (JNum t1) (JNum h) (JNum w) = Inr (JNum c1)
      \<and> calculate_comfort_index (JNum t2) (JNum h) (JNum w) = Inr (JNum c2)
      \<longrightarrow> c1 \<le> c2)"
  using comfort_value_humidity comfort_value_wind comfort_value_temperature
  by (auto simp: comfort_index_numbers)

theorem comfort_index_monotone_witness:
  "calculate_comfort_index (JNum 20) (JNum 50) (JNum 5) = Inr (JNum 0.5)
   \<and> calculate_comfort_index (JNum 20) (JNum 60) (JNum 5) = Inr (JNum 0.47)
   \<and> calculate_comfort_index (JNum 20) (JNum 50) (JNum 8) = Inr (JNum 0.44)
   \<and> calculate_comfort_index (JNum 30) (JNum 50) (JNum 5) = Inr (JNum 0.625)
   \<and> (0.47::real) \<le> 0.5 \<and> (0.44::real) \<le> 0.5 \<and> (0.5::real) \<le> 0.625"
proof -
  have v: "calculate_comfort_index (JNum 20) (JNum 50) (JNum 5) = Inr (JNum 0.5)"
    "calculate_comfort_index (JNum 20) (JNum 60) (JNum 5) = Inr (JNum 0.47)"
    "calculate_comfort_index (JNum 20) (JNum 50) (JNum 8) = Inr (JNum 0.44)"
    "calculate_comfort_index (JNum 30) (JNum 50) (JNum 5) = Inr (JNum 0.625)"
    by (simp_all add: comfort_index_numbers comfort_value_def)
  have "(50::real) \<le> 60" "(5::real) \<le> 8"
    "(0::real) \<le> 20 \<and> (20::real) \<le> 30 \<and> (30::real) \<le> 40"
    by simp_all
  with comfort_index_monotone v
  have "(0.47::real) \<le> 0.5" "(0.44::real) \<le> 0.5" "(0.5::real) \<le> 0.625"
    by blast+
  with v show ?thesis by simp
qed

section \<open>Properties of the enricher\<close>

lemma pbind_Inr [simp]: "pbind (Inr x) f = f x"
  by (simp add: pbind_def)

lemma pbind_Inl [simp]: "pbind (Inl e) f = Inl e"
  by (simp add: pbind_def)

lemma pbind_eq_Inr: "pbind m f = Inr y \<longleftrightarrow> (\<exists>x. m = Inr x \<and> f x = Inr y)"
  by (cases m) simp_all

lemma map_of_dict_set: "map_of (dict_set kvs k v) = (map_of kvs)(k \<mapsto> v)"
  by (induction kvs) (auto simp: fun_eq_iff)

lemma dict_set_not_Nil: "dict_set kvs k v \<noteq> []"
  by (cases kvs) (auto split: if_splits)

lemma py_setitem_Inr: "py_setitem x k v = Inr y \<longleftrightarrow> (\<exists>kvs. x = JDict kvs \<and> y = JDict (dict_set kvs k v))"
  by (cases x) auto

lemma py_getitem_Inr: "py_getitem x k = Inr y \<longleftrightarrow> (\<exists>kvs. x = JDict kvs \<and> map_of kvs k = Some y)"
  by (cases x) (auto split: option.splits)

lemma overlay_location_shape:
  assumes "overlay_location weather_data country_code state_name city_name = Inr r"
  shows "\<exists>kvs sys. r = JDict kvs \<and> kvs \<noteq> []
           \<and> map_of kvs ''name'' = Some city_name
           \<and> map_of kvs ''sys'' = Some (JDict sys)
           \<and> map_of sys ''country'' = Some country_code
           \<and> map_of sys ''state'' = Some state_name"
  using assms
  by (auto simp: overlay_location_def pbind_eq_Inr py_setitem_Inr py_getitem_Inr
        map_of_dict_set dict_set_not_Nil split: if_splits)



lemma finalize_weather_data_shape:
  assumes "finalize_weather_data P geocode_data api_key tr = (Inr r, tr')"
  shows "\<exists>kvs sys. r = JDict kvs \<and> kvs \<noteq> [] \<and> map_of kvs ''sys'' = Some (JDict sys)"
proof -
  from assms obtain wd c s n where "overlay_location wd c s n = Inr r"
    by (auto simp: finalize_weather_data_def split: sum.splits prod.splits)
  from overlay_location_shape [OF this] show ?thesis by blast
qed


lemma fallback_attempt_shape:
  assumes "fallback_attempt P fq api_key tr = (Some r, tr')"
  shows "\<exists>kvs sys. r = JDict kvs \<and> kvs \<noteq> [] \<and> map_of kvs ''sys'' = Some (JDict sys)"
proof -
  from assms obtain geo tr1 where "finalize_weather_data P geo api_key tr1 = (Inr r, tr')"
    by (auto simp: fallback_attempt_def split: sum.splits prod.splits if_splits)
  then show ?thesis by (rule finalize_weather_data_shape)
qed

lemma try_geocode_fallbacks_shape:
  assumes "try_geocode_fallbacks P q api_key tr = (r, tr')"
  shows "r = JNull \<or> (\<exists>kvs sys. r = JDict kvs \<and> kvs \<noteq> [] \<and> map_of kvs ''sys'' = Some (JDict sys))"
  using assms
  by (auto simp: try_geocode_fallbacks_def fallback_A_def fallback_B_def Let_def
        split: prod.splits option.splits if_splits dest!: fallback_attempt_shape)

lemma get_weather_data_geocoded_shape:
  assumes "get_weather_data_geocoded P q api_key tr = (r, tr')"
  shows "r = JNull \<or> (\<exists>kvs sys. r = JDict kvs \<and> kvs \<noteq> [] \<and> map_of kvs ''sys'' = Some (JDict sys))"
  using assms
  by (auto simp: get_weather_data_geocoded_def
        split: prod.splits sum.splits if_splits
        dest!: finalize_weather_data_shape try_geocode_fallbacks_shape)

section \<open>Properties of the resolver\<close>

lemma state_not_synonym:
  "x \<in> set US_STATE_ABBREVS \<Longrightarrow> map_of COUNTRY_SYNONYMS x = None"
  by (auto simp: US_STATE_ABBREVS_def COUNTRY_SYNONYMS_def)



lemma direct_empty:
  assumes "P tr (Geocode q k) = Inr geo" and "\<not> truthy geo"
  shows "get_weather_data_geocoded P q k tr =
           (case try_geocode_fallbacks P q k (tr @ [Geocode q k]) of
              (wd, tr2) \<Rightarrow> if truthy wd then (wd, tr2) else (JNull, tr2))"
  using assms by (simp add: get_weather_data_geocoded_def direct_geocode_def)

lemma fallback_attempt_log:
  "\<exists>more. snd (fallback_attempt P fq k tr) = tr @ [Geocode fq k] @ more"
  by (auto simp: fallback_attempt_def direct_geocode_def finalize_weather_data_def
        get_weather_by_latlon_def split: sum.splits prod.splits)

text \<open>
  No state abbreviation is a country synonym, so at most one fallback is attempted: the
  synonym rewrite when the last part is \<^verbatim>\<open>UK\<close>, the state suffix when it is a state.
\<close>

lemma single_fallback:
  assumes "2 \<le> length (query_parts q)"
    and "normalized (last (query_parts q)) = ''UK''
           \<and> fq = join '','' (butlast (query_parts q)) @ '',GB''
         \<or> normalized (last (query_parts q)) \<in> set US_STATE_ABBREVS \<and> fq = q @ '', US''"
  shows "try_geocode_fallbacks P q k tr =
           (case fallback_attempt P fq k tr of
              (Some wd, tr2) \<Rightarrow> (wd, tr2) | (None, tr2) \<Rightarrow> (JNull, tr2))"
  using assms(2)
proof (elim disjE conjE)
  assume "normalized (last (query_parts q)) = ''UK''"
    and "fq = join '','' (butlast (query_parts q)) @ '',GB''"
  with assms(1) show ?thesis
    by (simp add: try_geocode_fallbacks_def fallback_A_def fallback_B_def Let_def
          COUNTRY_SYNONYMS_def US_STATE_ABBREVS_def split: prod.splits option.splits)
next
  assume st: "normalized (last (query_parts q)) \<in> set US_STATE_ABBREVS"
    and "fq = q @ '', US''"
  with assms(1) state_not_synonym [OF st] show ?thesis
    by (simp add: try_geocode_fallbacks_def fallback_A_def fallback_B_def Let_def)
qed




lemma synonym_retry:
  assumes "P tr (Geocode q k) = Inr geo" and "\<not> truthy geo"
    and "2 \<le> length (query_parts q)" and "normalized (last (query_parts q)) = ''UK''"
  shows "\<exists>more. snd (get_weather_data_geocoded P q k tr) =
           tr @ [Geocode q k, Geocode (join '','' (butlast (query_parts q)) @ '',GB'') k] @ more"
proof -
  let ?fq = "join '','' (butlast (query_parts q)) @ '',GB''"
  obtain more where
    "snd (fallback_attempt P ?fq k (tr @ [Geocode q k])) = (tr @ [Geocode q k]) @ [Geocode ?fq k] @ more"
    using fallback_attempt_log by blast
  moreover have "try_geocode_fallbacks P q k (tr @ [Geocode q k]) =
      (case fallback_attempt P ?fq k (tr @ [Geocode q k]) of
         (Some wd, tr2) \<Rightarrow> (wd, tr2) | (None, tr2) \<Rightarrow> (JNull, tr2))"
    by (rule single_fallback [OF assms(3)]) (simp add: assms(4))
  then have "snd (get_weather_data_geocoded P q k tr) =
      snd (fallback_attempt P ?fq k (tr @ [Geocode q k]))"
    using assms(1,2) by (simp add: direct_empty split: prod.splits option.splits)
  ultimately show ?thesis by simp
qed

lemma london_parts:
  "query_parts ''London, UK'' = [''London'', ''UK'']" "normalized ''UK'' = ''UK''"
  by (simp_all add: query_parts_def strip_def isspace_def normalized_def remove_periods_def
        upper_def upper_char_def)

text \<open>
  C2, as the code has it. When the direct geocode answers with an empty result and the
  query has at least two comma-separated parts of which the last, stripped of white
  space, in upper case and without periods, is \<^verbatim>\<open>UK\<close>, the next request is the
  geocoding of the stripped earlier parts joined by commas, followed by \<^verbatim>\<open>,GB\<close>.
  For \<^verbatim>\<open>London, UK\<close> this is \<^verbatim>\<open>London,GB\<close>, with no space after the comma.
\<close>

theorem synonym_fallback_retry:
  "(\<forall>geo. P tr (Geocode q k) = Inr geo \<and> \<not> truthy geo
        \<and> 2 \<le> length (query_parts q) \<and> normalized (last (query_parts q)) = ''UK'' \<longrightarrow>
        (\<exists>more. snd (get_weather_data_geocoded P q k tr) =
           tr @ [Geocode q k, Geocode (join '','' (butlast (query_parts q)) @ '',GB'') k]
              @ more))
   \<and> (\<forall>geo. P tr (Geocode ''London, UK'' k) = Inr geo \<and> \<not> truthy geo \<longrightarrow>
        (\<exists>more. snd (get_weather_data_geocoded P ''London, UK'' k tr) =
           tr @ [Geocode ''London, UK'' k, Geocode ''London,GB'' k] @ more))"
proof (intro conjI allI impI)
  fix geo
  assume "P tr (Geocode q k) = Inr geo \<and> \<not> truthy geo
        \<and> 2 \<le> length (query_parts q) \<and> normalized (last (query_parts q)) = ''UK''"
  then show "\<exists>more. snd (get_weather_data_geocoded P q k tr) =
           tr @ [Geocode q k, Geocode (join '','' (butlast (query_parts q)) @ '',GB'') k] @ more"
    using synonym_retry by blast
next
  fix geo
  assume "P tr (Geocode ''London, UK'' k) = Inr geo \<and> \<not> truthy geo"
  then show "\<exists>more. snd (get_weather_data_geocoded P ''London, UK'' k tr) =
           tr @ [Geocode ''London, UK'' k, Geocode ''London,GB'' k] @ more"
    using synonym_retry [of P tr "''London, UK''" k geo] by (simp add: london_parts)
qed

section \<open>Properties of the pipeline\<close>

lemma optional_object_get:
  assumes "optional_object wd k"
  shows "\<exists>d. py_get wd k (JDict []) = Inr (JDict d)
            \<and> (\<forall>f. py_get (JDict d) f JNull = Inr (result_field (result_field wd k) f))"
proof -
  from assms obtain kvs where wd: "wd = JDict kvs"
    by (cases wd) (simp_all add: optional_object_def)
  show ?thesis
  proof (cases "map_of kvs k")
    case None
    then show ?thesis by (simp add: wd result_field_def)
  next
    case (Some v)
    with assms wd obtain d where "v = JDict d"
      by (cases v) (simp_all add: optional_object_def)
    with Some show ?thesis by (simp add: wd result_field_def)
  qed
qed

lemma description_get:
  assumes "optional_conditions wd"
  shows "\<exists>details desc. py_get wd ''weather'' (JList [JDict []]) = Inr details
      \<and> (if truthy details
            then pbind (py_first details)
                   (\<lambda>first. py_get first ''description'' (JStr ''N/A''))
            else Inr (JStr ''N/A'')) = Inr desc
      \<and> (no_conditions wd \<longrightarrow> desc = JStr ''N/A'')"
proof -
  from assms obtain kvs where wd: "wd = JDict kvs"
    by (cases wd) (simp_all add: optional_conditions_def)
  show ?thesis
  proof (cases "map_of kvs ''weather''")
    case None
    then show ?thesis by (simp add: wd result_field_def no_conditions_def)
  next
    case (Some v)
    with assms wd show ?thesis
      by (auto simp: result_field_def no_conditions_def optional_conditions_def
            split: json.splits list.splits)
  qed
qed

lemma extract_fields_well_formed:
  assumes "well_formed_observation wd" and "optional_object wd ''sys''"
  shows "\<exists>desc. extract_fields wd =
            Inr (temperature_of wd, humidity_of wd, desc, wind_speed_of wd,
                 city_name_of wd, country_code_of wd, state_name_of wd)
          \<and> (no_conditions wd \<longrightarrow> desc = JStr ''N/A'')"
proof -
  from assms(1) have m: "optional_object wd ''main''" and w: "optional_object wd ''wind''"
    and d: "optional_conditions wd"
    by (simp_all add: well_formed_observation_def)
  from optional_object_get [OF m] obtain main_info where
    main: "py_get wd ''main'' (JDict []) = Inr (JDict main_info)"
      "\<And>f. py_get (JDict main_info) f JNull = Inr (result_field (result_field wd ''main'') f)"
    by blast
  from optional_object_get [OF w] obtain wind_info where
    wind: "py_get wd ''wind'' (JDict []) = Inr (JDict wind_info)"
      "\<And>f. py_get (JDict wind_info) f JNull = Inr (result_field (result_field wd ''wind'') f)"
    by blast
  from optional_object_get [OF assms(2)] obtain sys where
    sys: "py_get wd ''sys'' (JDict []) = Inr (JDict sys)"
      "\<And>f. py_get (JDict sys) f JNull = Inr (result_field (result_field wd ''sys'') f)"
    by blast
  from description_get [OF d] obtain details desc where
    desc: "py_get wd ''weather'' (JList [JDict []]) = Inr details"
      "(if truthy details
            then pbind (py_first details)
                   (\<lambda>first. py_get first ''description'' (JStr ''N/A''))
            else Inr (JStr ''N/A'')) = Inr desc"
      "no_conditions wd \<longrightarrow> desc = JStr ''N/A''"
    by blast
  from m obtain kvs where "wd = JDict kvs"
    by (cases wd) (simp_all add: optional_object_def)
  then have name: "py_get wd ''name'' JNull = Inr (result_field wd ''name'')"
    by (simp add: result_field_def)
  have "extract_fields wd =
            Inr (temperature_of wd, humidity_of wd, desc, wind_speed_of wd,
                 city_name_of wd, country_code_of wd, state_name_of wd)"
    unfolding extract_fields_def main wind sys desc name pbind_Inr
      temperature_of_def humidity_of_def wind_speed_of_def city_name_of_def
      country_code_of_def state_name_of_def
    by (rule refl)
  with desc(3) show ?thesis by blast
qed

lemma is_success_incomplete_failure [simp]:
  "\<not> is_success (incomplete_failure oi name cc st)"
  by (simp add: is_success_def incomplete_failure_def)

lemma shape_result_well_formed:
  assumes "optional_number t" and "optional_number h" and "optional_number w"
    and "optional_string name"
  shows "\<exists>r. shape_result oi (t, h, desc, w, name, cc, st) = Inr r
     \<and> (if t \<noteq> JNull \<and> h \<noteq> JNull \<and> w \<noteq> JNull \<and> name \<noteq> JNull \<and> name \<noteq> JStr []
         then is_success r \<and> result_field r ''weather_desc'' = desc
         else r = incomplete_failure oi name cc st)"
  using assms
  by (auto simp: shape_result_def optional_number_def optional_string_def
        convert_temperatures_def calculate_comfort_index_def city_result_def is_success_def
        result_field_def split: json.splits)

text \<open>
  The step of the loop on a query that resolves to a well-formed observation: one
  result, a success when the observation is complete and the incomplete-data failure
  otherwise.
\<close>

lemma get_weather_step_resolved:
  assumes "strip q \<noteq> []"
    and "get_weather_data_geocoded P (strip q) k tr = (wd, tr')"
    and "truthy wd"
    and "well_formed_observation wd"
  shows "\<exists>r. get_weather_step P k q (results, tr) = (results @ [r], tr')
     \<and> (if complete_observation wd
         then is_success r
           \<and> (no_conditions wd \<longrightarrow> result_field r ''weather_desc'' = JStr ''N/A'')
         else r = incomplete_failure (strip q) (city_name_of wd) (country_code_of wd)
                 (state_name_of wd))"
proof -
  from get_weather_data_geocoded_shape [OF assms(2)] assms(3)
  have "optional_object wd ''sys''"
    by (auto simp: optional_object_def)
  from extract_fields_well_formed [OF assms(4) this] obtain desc where
    ex: "extract_fields wd =
            Inr (temperature_of wd, humidity_of wd, desc, wind_speed_of wd,
                 city_name_of wd, country_code_of wd, state_name_of wd)"
    and na: "no_conditions wd \<longrightarrow> desc = JStr ''N/A''"
    by blast
  from assms(4) have wf: "optional_number (temperature_of wd)" "optional_number (humidity_of wd)"
    "optional_number (wind_speed_of wd)" "optional_string (city_name_of wd)"
    by (simp_all add: well_formed_observation_def)
  from shape_result_well_formed [OF wf, of "strip q" desc "country_code_of wd" "state_name_of wd"]
  obtain r where r: "process_weather_data (strip q) wd = r"
    and c: "if complete_observation wd
         then is_success r \<and> result_field r ''weather_desc'' = desc
         else r = incomplete_failure (strip q) (city_name_of wd) (country_code_of wd)
                 (state_name_of wd)"
    unfolding complete_observation_def by (auto simp: process_weather_data_def ex)
  have "get_weather_step P k q (results, tr) = (results @ [r], tr')"
    using assms(1-3) r by (simp add: get_weather_step_def)
  with c na show ?thesis
    by (cases "complete_observation wd") auto
qed

text \<open>
  C3. For a query that resolves to a well-formed observation, the step of the loop
  appends one result. It is a success exactly when temperature, humidity and wind speed
  are not \<^verbatim>\<open>None\<close> and the city name is neither \<^verbatim>\<open>None\<close> nor empty. Otherwise it
  is the failure with the incomplete-data message, which carries the country code and
  the state name of the observation and its city name (\<^verbatim>\<open>Unknown\<close> when that is
  missing).
\<close>

theorem success_iff_complete:
  assumes "strip location_query \<noteq> []"
    and "get_weather_data_geocoded P (strip location_query) api_key tr = (weather_data, tr')"
    and "truthy weather_data"
    and "well_formed_observation weather_data"
  shows "\<exists>r. get_weather_step P api_key location_query (results, tr) = (results @ [r], tr')
     \<and> (is_success r \<longleftrightarrow>
          temperature_of weather_data \<noteq> JNull \<and> humidity_of weather_data \<noteq> JNull
          \<and> wind_speed_of weather_data \<noteq> JNull
          \<and> city_name_of weather_data \<noteq> JNull \<and> city_name_of weather_data \<noteq> JStr [])
     \<and> (\<not> is_success r \<longrightarrow>
          result_field r ''error'' = JStr ''Incomplete data received from the weather service API.''
          \<and> result_field r ''city_name'' =
              (if city_name_of weather_data = JNull \<or> city_name_of weather_data = JStr []
               then JStr ''Unknown'' else city_name_of weather_data)
          \<and> result_field r ''country_code'' = country_code_of weather_data
          \<and> result_field r ''state'' = state_name_of weather_data)"
proof -
  from get_weather_step_resolved [OF assms, of results] obtain r where
    step: "get_weather_step P api_key location_query (results, tr) = (results @ [r], tr')"
    and r: "if complete_observation weather_data then is_success r
         else r = incomplete_failure (strip location_query) (city_name_of weather_data)
                 (country_code_of weather_data) (state_name_of weather_data)"
    by (auto split: if_splits)
  from assms(4) have "optional_string (city_name_of weather_data)"
    by (simp add: well_formed_observation_def)
  then have name: "truthy (city_name_of weather_data) \<longleftrightarrow>
      \<not> (city_name_of weather_data = JNull \<or> city_name_of weather_data = JStr [])"
    by (cases "city_name_of weather_data") (simp_all add: optional_string_def)
  show ?thesis
  proof (cases "complete_observation weather_data")
    case True
    with r step show ?thesis
      by (auto simp: complete_observation_def)
  next
    case False
    with r have "r = incomplete_failure (strip location_query) (city_name_of weather_data)
                 (country_code_of weather_data) (state_name_of weather_data)"
      by simp
    with name have "\<not> is_success r"
      and "result_field r ''error'' = JStr ''Incomplete data received from the weather service API.''"
      and "result_field r ''city_name'' =
              (if city_name_of weather_data = JNull \<or> city_name_of weather_data = JStr []
               then JStr ''Unknown'' else city_name_of weather_data)"
      and "result_field r ''country_code'' = country_code_of weather_data"
      and "result_field r ''state'' = state_name_of weather_data"
      by (simp_all add: incomplete_failure_def result_field_def is_success_def)
    with False step show ?thesis
      by (auto simp: complete_observation_def)
  qed
qed

text \<open>
  C9. For a query that resolves to a well-formed observation with temperature, humidity,
  wind speed and city name present, a \<^verbatim>\<open>weather\<close> list that is missing or empty
  does not make the result a failure: the result is a success whose description is
  \<^verbatim>\<open>N/A\<close>.
\<close>

theorem missing_description_is_not_a_failure:
  assumes "strip location_query \<noteq> []"
    and "get_weather_data_geocoded P (strip location_query) api_key tr = (weather_data, tr')"
    and "truthy weather_data"
    and "well_formed_observation weather_data"
    and "complete_observation weather_data"
    and "no_conditions weather_data"
  shows "\<exists>r. get_weather_step P api_key location_query (results, tr) = (results @ [r], tr')
     \<and> is_success r \<and> result_field r ''weather_desc'' = JStr ''N/A''"
  using get_weather_step_resolved [OF assms(1-4), of results] assms(5,6)
  by auto

text \<open>
  C10. For a query that resolves to a well-formed observation whose city name is the
  empty string, the result is the incomplete-data failure, and its city name is
  \<^verbatim>\<open>Unknown\<close>.
\<close>

theorem empty_city_name_is_incomplete:
  assumes "strip location_query \<noteq> []"
    and "get_weather_data_geocoded P (strip location_query) api_key tr = (weather_data, tr')"
    and "truthy weather_data"
    and "well_formed_observation weather_data"
    and "city_name_of weather_data = JStr []"
  shows "\<exists>r. get_weather_step P api_key location_query (results, tr) = (results @ [r], tr')
     \<and> \<not> is_success r
     \<and> result_field r ''error'' = JStr ''Incomplete data received from the weather service API.''
     \<and> result_field r ''city_name'' = JStr ''Unknown''"
proof -
  from assms(5) have "\<not> complete_observation weather_data"
    by (simp add: complete_observation_def)
  with get_weather_step_resolved [OF assms(1-4), of results] obtain r where
    step: "get_weather_step P api_key location_query (results, tr) = (results @ [r], tr')"
    and r: "r = incomplete_failure (strip location_query) (JStr [])
                 (country_code_of weather_data) (state_name_of weather_data)"
    unfolding assms(5) by auto
  have "\<not> is_success r" and "result_field r ''city_name'' = JStr ''Unknown''"
    and "result_field r ''error'' = JStr ''Incomplete data received from the weather service API.''"
    unfolding r by (simp_all add: incomplete_failure_def result_field_def is_success_def)
  with step show ?thesis by blast
qed

lemma process_weather_data_input:
  "result_field (process_weather_data oi wd) ''original_input'' = JStr oi"
  by (auto simp: process_weather_data_def shape_result_def pbind_def internal_failure_def
        incomplete_failure_def city_result_def result_field_def
        split: sum.splits prod.splits if_splits)

lemma get_weather_step_inputs:
  "map (\<lambda>r. result_field r ''original_input'') (fst (get_weather_step P k q st)) =
     map (\<lambda>r. result_field r ''original_input'') (fst st)
       @ (if strip q = [] then [] else [JStr (strip q)])"
proof -
  have "result_field (fetch_failure (strip q)) ''original_input'' = JStr (strip q)"
    by (simp add: fetch_failure_def result_field_def)
  then show ?thesis
    by (cases st)
      (auto simp: get_weather_step_def Let_def process_weather_data_input split: prod.splits)
qed

lemma get_weather_loop_inputs:
  "map (\<lambda>r. result_field r ''original_input'') (fst (get_weather_loop P k qs st)) =
     map (\<lambda>r. result_field r ''original_input'') (fst st)
       @ map JStr (filter (\<lambda>s. s \<noteq> []) (map strip qs))"
  by (induction qs arbitrary: st) (simp_all add: get_weather_step_inputs)

text \<open>
  C4. The results of a batch are, in order, one for each input that is not empty after
  \<^verbatim>\<open>strip()\<close>: the \<^verbatim>\<open>original_input\<close> fields of the results are the stripped
  non-empty inputs in input order, so that their number is the number of such inputs.
\<close>

theorem one_result_per_nonempty_input:
  "map (\<lambda>r. result_field r ''original_input'') (process_batch P api_key location_queries tr) =
     map JStr (filter (\<lambda>s. s \<noteq> []) (map strip location_queries))
   \<and> length (process_batch P api_key location_queries tr) =
       length (filter (\<lambda>s. s \<noteq> []) (map strip location_queries))"
proof -
  have m: "map (\<lambda>r. result_field r ''original_input'') (process_batch P api_key location_queries tr) =
     map JStr (filter (\<lambda>s. s \<noteq> []) (map strip location_queries))"
    by (simp add: process_batch_def get_weather_loop_inputs)
  have "length (process_batch P api_key location_queries tr) =
      length (map (\<lambda>r. result_field r ''original_input'')
                 (process_batch P api_key location_queries tr))"
    by simp
  also have "\<dots> = length (filter (\<lambda>s. s \<noteq> []) (map strip location_queries))"
    unfolding m by simp
  finally show ?thesis using m by blast
qed

section \<open>Evaluation on the examples\<close>

lemmas eval_defs =
  get_weather_data_geocoded_def direct_geocode_def table_provider_def
  try_geocode_fallbacks_def fallback_A_def fallback_B_def fallback_attempt_def
  finalize_weather_data_def geocode_fields_def get_weather_by_latlon_def overlay_location_def
  query_parts_def normalized_def strip_def isspace_def upper_def upper_char_def
  remove_periods_def COUNTRY_SYNONYMS_def US_STATE_ABBREVS_def example_match_def
  example_weather_def no_wind_weather_def nameless_match_def direct_error_provider_def
  fallback_error_provider_def fallback_provider_def no_match_provider_def
  boston_provider_def nameless_provider_def

lemmas observation_defs =
  well_formed_observation_def optional_object_def optional_number_def optional_string_def
  optional_conditions_def no_conditions_def complete_observation_def
  temperature_of_def humidity_of_def wind_speed_of_def city_name_of_def country_code_of_def
  state_name_of_def result_field_def


text \<open>
  When nothing matches, \<^verbatim>\<open>London, UK\<close> is retried as \<^verbatim>\<open>London,GB\<close>, which is not
  \<^verbatim>\<open>London, GB\<close>; and the query \<^verbatim>\<open>UK\<close>, whose only part is the synonym, is not
  retried.
\<close>

theorem london_retry_counterexample:
  "snd (get_weather_data_geocoded no_match_provider ''London, UK'' ''KEY'' [])
     = [Geocode ''London, UK'' ''KEY'', Geocode ''London,GB'' ''KEY'']
   \<and> ''London,GB'' \<noteq> ''London, GB''
   \<and> normalized (last (str_split CHR '','' ''UK'')) = ''UK''
   \<and> snd (get_weather_data_geocoded no_match_provider ''UK'' ''KEY'' [])
       = [Geocode ''UK'' ''KEY'']"
  by (simp add: eval_defs)

text \<open>The synonym rewrite on a query with white space and periods.\<close>

theorem synonym_fallback_retry_witness:
  "(\<exists>more. snd (get_weather_data_geocoded fallback_provider '' Leeds , u.k.'' ''KEY'' [])
      = [Geocode '' Leeds , u.k.'' ''KEY'', Geocode ''Leeds,GB'' ''KEY''] @ more)
   \<and> (\<exists>more. snd (get_weather_data_geocoded fallback_provider ''London, UK'' ''KEY'' [])
      = [Geocode ''London, UK'' ''KEY'', Geocode ''London,GB'' ''KEY''] @ more)"
  using synonym_fallback_retry [of fallback_provider "[]" "'' Leeds , u.k.''" "''KEY''"]
  by (simp add: fallback_provider_def table_provider_def query_parts_def normalized_def
        strip_def isspace_def upper_def upper_char_def remove_periods_def)


text \<open>A batch of a blank input, an input that resolves and one that does not.\<close>

theorem one_result_per_nonempty_input_witness:
  "map (\<lambda>r. result_field r ''original_input'')
     (process_batch (boston_provider example_weather) ''KEY''
        [''  '', '' Boston, MA '', ''Nowhere123''] [])
     = [JStr ''Boston, MA'', JStr ''Nowhere123'']
   \<and> length (process_batch (boston_provider example_weather) ''KEY''
        [''  '', '' Boston, MA '', ''Nowhere123''] []) = 2"
  using one_result_per_nonempty_input
    [of "boston_provider example_weather" "''KEY''"
        "[''  '', '' Boston, MA '', ''Nowhere123'']" "[]"]
  by (simp add: strip_def isspace_def)


text \<open>An observation without wind speed gives the incomplete-data failure.\<close>

theorem success_iff_complete_witness:
  "\<exists>r. get_weather_step (boston_provider no_wind_weather) ''KEY'' '' Boston, MA '' ([], [])
        = ([r], [Geocode ''Boston, MA'' ''KEY'', Weather (JNum 42.36) (JNum (- 71.06)) ''KEY''])
      \<and> \<not> is_success r
      \<and> result_field r ''error'' = JStr ''Incomplete data received from the weather service API.''
      \<and> result_field r ''city_name'' = JStr ''Boston''
      \<and> result_field r ''country_code'' = JStr ''US''
      \<and> result_field r ''state'' = JStr ''Massachusetts''"
proof -
  let ?g = "get_weather_data_geocoded (boston_provider no_wind_weather)
              (strip '' Boston, MA '') ''KEY'' []"
  have ne: "strip '' Boston, MA '' \<noteq> []"
    by (simp add: strip_def isspace_def)
  have g: "?g = (fst ?g, snd ?g)"
    by simp
  have t: "truthy (fst ?g)" and wf: "well_formed_observation (fst ?g)"
    by (simp_all add: eval_defs observation_defs)
  have v: "wind_speed_of (fst ?g) = JNull" "city_name_of (fst ?g) = JStr ''Boston''"
    "country_code_of (fst ?g) = JStr ''US''" "state_name_of (fst ?g) = JStr ''Massachusetts''"
    "snd ?g = [Geocode ''Boston, MA'' ''KEY'', Weather (JNum 42.36) (JNum (- 71.06)) ''KEY'']"
    by (simp_all add: eval_defs observation_defs)
  from success_iff_complete [OF ne g t wf, of "[]"] show ?thesis
    unfolding v by auto
qed

text \<open>The example observation has no \<^verbatim>\<open>weather\<close> list and gives a success.\<close>

theorem missing_description_is_not_a_failure_witness:
  "\<exists>r. get_weather_step (boston_provider example_weather) ''KEY'' ''Boston, MA'' ([], [])
        = ([r], [Geocode ''Boston, MA'' ''KEY'', Weather (JNum 42.36) (JNum (- 71.06)) ''KEY''])
      \<and> is_success r
      \<and> result_field r ''weather_desc'' = JStr ''N/A''"
proof -
  let ?g = "get_weather_data_geocoded (boston_provider example_weather)
              (strip ''Boston, MA'') ''KEY'' []"
  have ne: "strip ''Boston, MA'' \<noteq> []"
    by (simp add: strip_def isspace_def)
  have g: "?g = (fst ?g, snd ?g)"
    by simp
  have t: "truthy (fst ?g)" and wf: "well_formed_observation (fst ?g)"
    and c: "complete_observation (fst ?g)"
    and w: "no_conditions (fst ?g)"
    by (simp_all add: eval_defs observation_defs)
  from missing_description_is_not_a_failure [OF ne g t wf c w, of "[]"] show ?thesis
    by (simp add: eval_defs)
qed

text \<open>A match whose name is the empty string.\<close>

theorem empty_city_name_is_incomplete_witness:
  "\<exists>r. get_weather_step nameless_provider ''KEY'' ''Nowhere'' ([], [])
        = ([r], [Geocode ''Nowhere'' ''KEY'', Weather (JNum 1) (JNum 2) ''KEY''])
      \<and> \<not> is_success r
      \<and> result_field r ''error'' = JStr ''Incomplete data received from the weather service API.''
      \<and> result_field r ''city_name'' = JStr ''Unknown''"
proof -
  let ?g = "get_weather_data_geocoded nameless_provider (strip ''Nowhere'') ''KEY'' []"
  have ne: "strip ''Nowhere'' \<noteq> []"
    by (simp add: strip_def isspace_def)
  have g: "?g = (fst ?g, snd ?g)"
    by simp
  have t: "truthy (fst ?g)" and wf: "well_formed_observation (fst ?g)"
    and n: "city_name_of (fst ?g) = JStr []"
    by (simp_all add: eval_defs observation_defs)
  from empty_city_name_is_incomplete [OF ne g t wf n, of "[]"] show ?thesis
    by (simp add: eval_defs)
qed

text \<open>
  Outside the well-formed shapes the reads raise. An observation whose \<^verbatim>\<open>sys\<close> entry
  is \<^verbatim>\<open>null\<close> makes the overlay raise \<^verbatim>\<open>TypeError\<close>, and one whose \<^verbatim>\<open>main\<close>
  entry is \<^verbatim>\<open>null\<close> gives the internal-error failure, not the incomplete-data one.
\<close>

lemma overlay_location_null_sys:
  "overlay_location (JDict [(''sys'', JNull)]) country_code state_name city_name = Inl TypeError"
  by (simp add: overlay_location_def)

lemma process_weather_data_null_main:
  "process_weather_data ''Boston'' (JDict [(''main'', JNull), (''name'', JStr ''Boston'')])
     = internal_failure ''Boston''"
  by (simp add: process_weather_data_def extract_fields_def)

end
